theory Spec2Isabelle
  imports Main
begin

section \<open>JavaScript strings\<close>

text \<open>
  A JavaScript string is a sequence of UTF-16 code units. A code unit is modelled by its
  numeric value; the regular expression of the form validation has no \<open>u\<close> flag, so it
  works on code units too. String literals of the source are ASCII and are written with
  \<open>js\<close>.
\<close>

type_synonym code_unit = nat
type_synonym jsstring = "code_unit list"

definition js :: "string \<Rightarrow> jsstring" where
  "js s = map of_char s"

text \<open>
  The characters matched by \<open>\s\<close> and removed by \<open>String.prototype.trim\<close>: ECMAScript's
  WhiteSpace and LineTerminator code points (TAB, LF, VT, FF, CR, SP, NBSP, U+1680,
  U+2000 to U+200A, U+2028, U+2029, U+202F, U+205F, U+3000, U+FEFF).
\<close>

definition isWhiteSpace :: "code_unit \<Rightarrow> bool" where
  "isWhiteSpace c \<longleftrightarrow>
     c = 9 \<or> c = 10 \<or> c = 11 \<or> c = 12 \<or> c = 13 \<or> c = 32 \<or> c = 160 \<or> c = 5760 \<or>
     (8192 \<le> c \<and> c \<le> 8202) \<or> c = 8232 \<or> c = 8233 \<or> c = 8239 \<or> c = 8287 \<or>
     c = 12288 \<or> c = 65279"

definition trim :: "jsstring \<Rightarrow> jsstring" where
  "trim s = rev (dropWhile isWhiteSpace (rev (dropWhile isWhiteSpace s)))"

text \<open>Decimal rendering of a non-negative integer, as a template literal renders it.\<close>

fun numberToString :: "nat \<Rightarrow> jsstring" where
  "numberToString n =
     (if n < 10 then [48 + n] else numberToString (n div 10) @ [48 + n mod 10])"

declare numberToString.simps [simp del]

section \<open>Regular expressions of the shape used by the validation\<close>

text \<open>
  The pattern \<open>/^[^\s@]+@[^\s@]+\.[^\s@]+$/\<close> is a sequence of pieces between the anchors
  \<open>^\<close> and \<open>$\<close>; a piece is a character class taken once or with the quantifier \<open>+\<close>.
  \<open>test\<close> says whether the whole string is matched by the sequence.
\<close>

datatype quantifier = Once | OneOrMore

type_synonym piece = "(code_unit \<Rightarrow> bool) \<times> quantifier"

fun test :: "piece list \<Rightarrow> jsstring \<Rightarrow> bool" where
  "test [] s = (s = [])"
| "test ((p, Once) # r) [] = False"
| "test ((p, Once) # r) (c # s) = (p c \<and> test r s)"
| "test ((p, OneOrMore) # r) [] = False"
| "test ((p, OneOrMore) # r) (c # s) = (p c \<and> (test ((p, OneOrMore) # r) s \<or> test r s))"

abbreviation at_sign :: code_unit where "at_sign \<equiv> 64"
abbreviation full_stop :: code_unit where "full_stop \<equiv> 46"

text \<open>The class \<open>[^\s@]\<close>.\<close>

definition notSpaceNorAt :: "code_unit \<Rightarrow> bool" where
  "notSpaceNorAt c \<longleftrightarrow> \<not> isWhiteSpace c \<and> c \<noteq> at_sign"

definition emailRegex :: "piece list" where
  "emailRegex =
     [(notSpaceNorAt, OneOrMore), ((\<lambda>c. c = at_sign), Once),
      (notSpaceNorAt, OneOrMore), ((\<lambda>c. c = full_stop), Once),
      (notSpaceNorAt, OneOrMore)]"

section \<open>Data model\<close>

text \<open>
  The records of the source are JavaScript objects with the properties \<open>id\<close>,
  \<open>name\<close>, \<open>email\<close>, \<open>course\<close> (a student), \<open>id\<close>, \<open>code\<close>, \<open>name\<close> (a course) and
  \<open>name\<close>, \<open>email\<close>, \<open>course\<close> (the form data); the fields carry the record's name as
  a prefix to keep them apart.
\<close>

record student =
  student_id :: jsstring
  student_name :: jsstring
  student_email :: jsstring
  student_course :: jsstring

record course =
  course_id :: jsstring
  course_code :: jsstring
  course_name :: jsstring

record form_data =
  form_name :: jsstring
  form_email :: jsstring
  form_course :: jsstring

text \<open>
  The error object \<open>newErrors\<close>: property names with their messages, in insertion order.
  \<open>assign\<close> is the property assignment \<open>obj[k] = v\<close>.
\<close>

type_synonym validation_errors = "(string \<times> jsstring) list"

fun assign :: "string \<Rightarrow> jsstring \<Rightarrow> validation_errors \<Rightarrow> validation_errors" where
  "assign k v [] = [(k, v)]"
| "assign k v ((k', v') # ps) = (if k' = k then (k, v) # ps else (k', v') # assign k v ps)"

definition keys :: "validation_errors \<Rightarrow> string list" where
  "keys obj = map fst obj"

record app_state =
  students :: "student list"
  courses :: "course list"
  isAddDialogOpen :: bool
  isEditDialogOpen :: bool
  editingStudent :: "student option"
  formData :: form_data
  errors :: validation_errors

section \<open>Form validation\<close>

text \<open>The object \<open>newErrors\<close> that \<open>validateForm\<close> builds from the form data.\<close>

definition newErrors :: "form_data \<Rightarrow> validation_errors" where
  "newErrors fd =
     (let e0 = [];
          e1 = (if trim (form_name fd) = [] then assign ''name'' (js ''Name is required'') e0
                else e0);
          e2 = (if trim (form_email fd) = [] then assign ''email'' (js ''Email is required'') e1
                else if \<not> test emailRegex (form_email fd)
                then assign ''email'' (js ''Please enter a valid email address'') e1
                else e1);
          e3 = (if form_course fd = []
                then assign ''course'' (js ''Course selection is required'') e2
                else e2)
      in e3)"

text \<open>\<open>validateForm\<close> stores the errors and returns whether there are none.\<close>

definition validateForm :: "app_state \<Rightarrow> bool \<times> app_state" where
  "validateForm st =
     (let errs = newErrors (formData st)
      in (length (keys errs) = 0, st\<lparr>errors := errs\<rparr>))"

section \<open>HTTP requests and responses\<close>

datatype http_method = GET | POST | PUT | DELETE

record request =
  req_method :: http_method
  req_url :: jsstring
  req_body :: "form_data option"

text \<open>
  What \<open>await fetch(...)\<close> gives: the promise rejects with an error (its message), or it
  resolves to a response with a status code and a body; \<open>response.json()\<close> rejects with
  an error message (\<open>Inl\<close>) or resolves to the parsed data (\<open>Inr\<close>).
\<close>

datatype 'a fetch_result = NetworkError jsstring | Response nat "jsstring + 'a"

text \<open>\<open>response.ok\<close>: the status is in the range 200 to 299.\<close>

definition ok :: "nat \<Rightarrow> bool" where
  "ok status \<longleftrightarrow> 200 \<le> status \<and> status \<le> 299"

text \<open>
  The body of the \<open>try\<close> blocks after the request is sent: \<open>Inl\<close> is the message of the
  error that reaches \<open>catch\<close>. \<open>responseJson\<close> is the sequence
  \<open>if (!response.ok) throw new Error(...); await response.json()\<close>, \<open>responseOk\<close> the
  check alone (the delete handler does not read the body).
\<close>

definition httpError :: "nat \<Rightarrow> jsstring" where
  "httpError status = js ''HTTP error! status: '' @ numberToString status"

fun responseJson :: "'a fetch_result \<Rightarrow> jsstring + 'a" where
  "responseJson (NetworkError msg) = Inl msg"
| "responseJson (Response status body) = (if \<not> ok status then Inl (httpError status) else body)"

fun responseOk :: "'a fetch_result \<Rightarrow> jsstring + unit" where
  "responseOk (NetworkError msg) = Inl msg"
| "responseOk (Response status body) = (if \<not> ok status then Inl (httpError status) else Inr ())"

text \<open>
  What a handler does besides updating the state: it sends a request, or writes a line
  (given by its label, the first argument of \<open>console.error\<close>) to the console. A handler
  runs in two parts: up to its \<open>await fetch(...)\<close>, where it has either returned or is
  waiting for the answer to a request, and from the answer on, when its state setters
  act on the state of that moment.
\<close>

datatype effect = Fetch request | ConsoleError jsstring

datatype outcome = Return "effect list" | Await request

definition complete ::
  "app_state \<times> outcome \<Rightarrow> (app_state \<Rightarrow> app_state \<times> effect list) \<Rightarrow> app_state \<times> effect list"
where
  "complete r settle =
     (case r of
        (st, Return fx) \<Rightarrow> (st, fx)
      | (st, Await req) \<Rightarrow> (let (st', fx) = settle st in (st', Fetch req # fx)))"

definition MOCKAPI_BASE_URL :: jsstring where
  "MOCKAPI_BASE_URL = js ''https://68710f827ca4d06b34b92fc0.mockapi.io''"

definition COURSES_API_URL :: jsstring where
  "COURSES_API_URL = MOCKAPI_BASE_URL @ js ''/Courses''"

definition STUDENTS_API_URL :: jsstring where
  "STUDENTS_API_URL = MOCKAPI_BASE_URL @ js ''/Students''"

section \<open>The student fetch hook\<close>

record hook_state =
  hook_students :: "student list"
  hook_loading :: bool
  hook_error :: "jsstring option"

definition useStudents_initial :: hook_state where
  "useStudents_initial = \<lparr>hook_students = [], hook_loading = True, hook_error = None\<rparr>"

definition useStudents_request :: request where
  "useStudents_request =
     \<lparr>req_method = GET,
      req_url = js ''https://68710f827ca4d06b34b92fc0.mockapi.io/Students '',
      req_body = None\<rparr>"

text \<open>\<open>fetchStudents\<close> of the hook, from the answer to its request on.\<close>

definition useStudents_fetchStudents :: "student list fetch_result \<Rightarrow> hook_state \<Rightarrow> hook_state" where
  "useStudents_fetchStudents resp hs =
     (let hs' = (case responseJson resp of
                   Inl message \<Rightarrow> hs\<lparr>hook_error := Some message\<rparr>
                 | Inr data \<Rightarrow> hs\<lparr>hook_students := data\<rparr>)
      in hs'\<lparr>hook_loading := False\<rparr>)"

section \<open>The handlers of the main component\<close>

definition resetForm :: "app_state \<Rightarrow> app_state" where
  "resetForm st =
     st\<lparr>formData := \<lparr>form_name = [], form_email = [], form_course = []\<rparr>,
        errors := [],
        editingStudent := None\<rparr>"

definition handleAddStudent_submit :: "app_state \<Rightarrow> app_state \<times> outcome" where
  "handleAddStudent_submit st =
     (let (valid, st1) = validateForm st
      in if \<not> valid then (st1, Return [])
         else let newStudentData = formData st
              in (st1, Await \<lparr>req_method = POST, req_url = STUDENTS_API_URL,
                               req_body = Some newStudentData\<rparr>))"

definition handleAddStudent_settle :: "student fetch_result \<Rightarrow> app_state \<Rightarrow> app_state \<times> effect list" where
  "handleAddStudent_settle resp st =
     (case responseJson resp of
        Inl error \<Rightarrow> (st, [ConsoleError (js ''Error adding student:'')])
      | Inr addedStudent \<Rightarrow>
          ((resetForm (st\<lparr>students := students st @ [addedStudent]\<rparr>))
             \<lparr>isAddDialogOpen := False\<rparr>, []))"

definition handleAddStudent :: "student fetch_result \<Rightarrow> app_state \<Rightarrow> app_state \<times> effect list" where
  "handleAddStudent resp st = complete (handleAddStudent_submit st) (handleAddStudent_settle resp)"

text \<open>
  In the edit handler the URL is built from \<open>editingStudent.id\<close> inside the \<open>try\<close> block:
  with no student being edited the property access throws, the error is caught and
  logged, and no request is sent.
\<close>

definition handleEditStudent_submit :: "app_state \<Rightarrow> app_state \<times> outcome" where
  "handleEditStudent_submit st =
     (let (valid, st1) = validateForm st
      in if \<not> valid then (st1, Return [])
         else let updatedStudentData = formData st
              in case editingStudent st of
                   None \<Rightarrow> (st1, Return [ConsoleError (js ''Error updating student:'')])
                 | Some e \<Rightarrow>
                     (st1, Await \<lparr>req_method = PUT,
                                  req_url = STUDENTS_API_URL @ js ''/'' @ student_id e,
                                  req_body = Some updatedStudentData\<rparr>))"

definition handleEditStudent_settle :: "student fetch_result \<Rightarrow> app_state \<Rightarrow> app_state \<times> effect list" where
  "handleEditStudent_settle resp st =
     (case responseJson resp of
        Inl error \<Rightarrow> (st, [ConsoleError (js ''Error updating student:'')])
      | Inr updatedStudent \<Rightarrow>
          ((resetForm
              (st\<lparr>students :=
                    map (\<lambda>student. if student_id student = student_id updatedStudent
                                   then updatedStudent else student)
                        (students st)\<rparr>))
             \<lparr>isEditDialogOpen := False, editingStudent := None\<rparr>, []))"

definition handleEditStudent :: "student fetch_result \<Rightarrow> app_state \<Rightarrow> app_state \<times> effect list" where
  "handleEditStudent resp st = complete (handleEditStudent_submit st) (handleEditStudent_settle resp)"

text \<open>
  The delete handler first asks \<open>window.confirm\<close>; \<open>confirmed\<close> is the user's answer.
\<close>

definition handleDeleteStudent_submit :: "jsstring \<Rightarrow> bool \<Rightarrow> app_state \<Rightarrow> app_state \<times> outcome" where
  "handleDeleteStudent_submit ident confirmed st =
     (if \<not> confirmed then (st, Return [])
      else (st, Await \<lparr>req_method = DELETE,
                       req_url = STUDENTS_API_URL @ js ''/'' @ ident,
                       req_body = None\<rparr>))"

definition handleDeleteStudent_settle ::
  "jsstring \<Rightarrow> 'a fetch_result \<Rightarrow> app_state \<Rightarrow> app_state \<times> effect list"
where
  "handleDeleteStudent_settle ident resp st =
     (case responseOk resp of
        Inl error \<Rightarrow> (st, [ConsoleError (js ''Error deleting student:'')])
      | Inr u \<Rightarrow>
          (st\<lparr>students := filter (\<lambda>student. student_id student \<noteq> ident) (students st)\<rparr>, []))"

definition handleDeleteStudent ::
  "jsstring \<Rightarrow> bool \<Rightarrow> 'a fetch_result \<Rightarrow> app_state \<Rightarrow> app_state \<times> effect list"
where
  "handleDeleteStudent ident confirmed resp st =
     complete (handleDeleteStudent_submit ident confirmed st) (handleDeleteStudent_settle ident resp)"

definition handleEditClick :: "student \<Rightarrow> app_state \<Rightarrow> app_state" where
  "handleEditClick student st =
     st\<lparr>editingStudent := Some student,
        formData := \<lparr>form_name = student_name student, form_email = student_email student,
                     form_course = student_course student\<rparr>,
        isEditDialogOpen := True\<rparr>"

definition getCourseName :: "course list \<Rightarrow> jsstring \<Rightarrow> jsstring" where
  "getCourseName cs courseCode =
     (case find (\<lambda>c. course_code c = courseCode) cs of
        Some c \<Rightarrow> course_name c
      | None \<Rightarrow> courseCode)"

text \<open>The state of the main component when it is mounted (the arguments of \<open>useState\<close>).\<close>

definition initialState :: app_state where
  "initialState =
     \<lparr>students = [], courses = [], isAddDialogOpen = False, isEditDialogOpen = False,
      editingStudent = None,
      formData = \<lparr>form_name = [], form_email = [], form_course = []\<rparr>,
      errors = []\<rparr>"

section \<open>Properties stated in the specification's words\<close>

text \<open>
  The shape \<open>local-part@domain.tld\<close> as the specification describes it: a non-empty run of
  characters that are neither whitespace nor \<open>@\<close> before the \<open>@\<close>, another one between the
  \<open>@\<close> and the last full stop, and another one after the last full stop.
\<close>

definition emailShape_lastDot :: "jsstring \<Rightarrow> bool" where
  "emailShape_lastDot s \<longleftrightarrow>
     (\<exists>l d t. s = l @ at_sign # d @ full_stop # t \<and>
        l \<noteq> [] \<and> list_all notSpaceNorAt l \<and>
        d \<noteq> [] \<and> list_all notSpaceNorAt d \<and>
        t \<noteq> [] \<and> list_all notSpaceNorAt t \<and> full_stop \<notin> set t)"

text \<open>A request fails: a network error, or a response whose status is not 2xx.\<close>

fun requestFails :: "'a fetch_result \<Rightarrow> bool" where
  "requestFails (NetworkError msg) = True"
| "requestFails (Response status body) = (\<not> ok status)"

section \<open>Example data\<close>

definition janeDoe :: form_data where
  "janeDoe = \<lparr>form_name = js ''Jane Doe'', form_email = js ''jane@example.com'',
              form_course = js ''CS101''\<rparr>"

definition trailingDot :: form_data where
  "trailingDot = \<lparr>form_name = js ''A'', form_email = js ''a@b.c.'', form_course = js ''CS101''\<rparr>"

definition blankForm :: form_data where
  "blankForm = \<lparr>form_name = js ''  '', form_email = js '' '', form_course = []\<rparr>"

definition student7 :: student where
  "student7 = \<lparr>student_id = js ''7'', student_name = js ''Old'', student_email = js ''o@b.com'',
               student_course = js ''CS101''\<rparr>"

definition student7' :: student where
  "student7' = \<lparr>student_id = js ''7'', student_name = js ''New'', student_email = js ''n@b.com'',
                student_course = js ''CS102''\<rparr>"

definition student9 :: student where
  "student9 = \<lparr>student_id = js ''9'', student_name = js ''B'', student_email = js ''b@b.com'',
               student_course = js ''CS101''\<rparr>"

definition student42 :: student where
  "student42 = \<lparr>student_id = js ''42'', student_name = js ''A'', student_email = js ''a@b.com'',
                student_course = js ''CS101''\<rparr>"

definition introToCS :: course where
  "introToCS = \<lparr>course_id = js ''1'', course_code = js ''CS101'', course_name = js ''Intro to CS''\<rparr>"

section \<open>Auxiliary facts\<close>

lemmas string_eval = js_def trim_def isWhiteSpace_def notSpaceNorAt_def emailRegex_def

lemmas example_eval = student7_def student7'_def student9_def student42_def introToCS_def
  initialState_def ok_def js_def

subsection \<open>What the regular expression matches\<close>

lemma test_Once_iff:
  "test ((p, Once) # r) s \<longleftrightarrow> (\<exists>c v. s = c # v \<and> p c \<and> test r v)"
  by (cases s) auto

lemma test_OneOrMore_iff:
  "test ((p, OneOrMore) # r) s \<longleftrightarrow>
     (\<exists>u v. s = u @ v \<and> u \<noteq> [] \<and> list_all p u \<and> test r v)"
proof (induction s)
  case Nil
  then show ?case by simp
next
  case (Cons c s)
  show ?case
  proof
    assume "test ((p, OneOrMore) # r) (c # s)"
    then have pc: "p c" and rest: "test ((p, OneOrMore) # r) s \<or> test r s"
      by simp_all
    from rest show "\<exists>u v. c # s = u @ v \<and> u \<noteq> [] \<and> list_all p u \<and> test r v"
    proof
      assume "test ((p, OneOrMore) # r) s"
      with Cons.IH obtain u v where "s = u @ v" "list_all p u" "test r v"
        by blast
      with pc have "c # s = (c # u) @ v \<and> c # u \<noteq> [] \<and> list_all p (c # u) \<and> test r v"
        by simp
      then show ?thesis by blast
    next
      assume "test r s"
      with pc have "c # s = [c] @ s \<and> [c] \<noteq> [] \<and> list_all p [c] \<and> test r s"
        by simp
      then show ?thesis by blast
    qed
  next
    assume "\<exists>u v. c # s = u @ v \<and> u \<noteq> [] \<and> list_all p u \<and> test r v"
    then obtain u v where uv: "c # s = u @ v" "u \<noteq> []" "list_all p u" "test r v"
      by blast
    then obtain u' where u: "u = c # u'"
      by (cases u) auto
    with uv have pc: "p c" and s: "s = u' @ v" and pu': "list_all p u'"
      by simp_all
    show "test ((p, OneOrMore) # r) (c # s)"
    proof (cases "u' = []")
      case True
      with s uv(4) pc show ?thesis by simp
    next
      case False
      with s pu' uv(4) Cons.IH have "test ((p, OneOrMore) # r) s"
        by blast
      with pc show ?thesis by simp
    qed
  qed
qed

lemma test_emailRegex_iff:
  "test emailRegex s \<longleftrightarrow>
     (\<exists>l d t. s = l @ at_sign # d @ full_stop # t \<and>
        l \<noteq> [] \<and> list_all notSpaceNorAt l \<and>
        d \<noteq> [] \<and> list_all notSpaceNorAt d \<and>
        t \<noteq> [] \<and> list_all notSpaceNorAt t)"
  unfolding emailRegex_def test_OneOrMore_iff test_Once_iff test.simps(1)
  by (auto; blast)

subsection \<open>The error object\<close>

lemma map_of_assign: "map_of (assign k v e) = (map_of e)(k \<mapsto> v)"
  by (induction e) auto

lemma assign_not_Nil: "assign k v e \<noteq> []"
  by (cases e) (auto split: if_splits)

lemma newErrors_Nil_iff:
  "newErrors fd = [] \<longleftrightarrow>
     trim (form_name fd) \<noteq> [] \<and> trim (form_email fd) \<noteq> [] \<and>
     test emailRegex (form_email fd) \<and> form_course fd \<noteq> []"
  by (simp add: newErrors_def Let_def assign_not_Nil)

lemma newErrors_email:
  "map_of (newErrors fd) ''email'' =
     (if trim (form_email fd) = [] then Some (js ''Email is required'')
      else if \<not> test emailRegex (form_email fd)
      then Some (js ''Please enter a valid email address'')
      else None)"
  by (simp add: newErrors_def Let_def map_of_assign)

lemma validateForm_eq:
  "validateForm st = (newErrors (formData st) = [], st\<lparr>errors := newErrors (formData st)\<rparr>)"
  by (simp add: validateForm_def keys_def Let_def)

lemma newErrors_janeDoe: "newErrors janeDoe = []"
  by (simp add: newErrors_def janeDoe_def string_eval)

lemma newErrors_trailingDot: "newErrors trailingDot = []"
  by (simp add: newErrors_def trailingDot_def string_eval)

lemma newErrors_initial: "newErrors (formData initialState) \<noteq> []"
  by (simp add: initialState_def newErrors_def trim_def)

lemma not_lastDot_trailing: "\<not> emailShape_lastDot (js ''a@b.c.'')"
proof
  assume "emailShape_lastDot (js ''a@b.c.'')"
  then obtain l d t where s: "js ''a@b.c.'' = l @ at_sign # d @ full_stop # t"
    and t: "t \<noteq> []" "full_stop \<notin> set t"
    unfolding emailShape_lastDot_def by blast
  from s t(1) have "last (js ''a@b.c.'') = last t"
    by simp
  moreover have "last (js ''a@b.c.'') = full_stop"
    by (simp add: js_def)
  ultimately have "full_stop \<in> set t"
    using t(1) last_in_set by metis
  with t(2) show False by simp
qed

subsection \<open>The student list under the handlers\<close>

lemma students_resetForm: "students (resetForm st) = students st"
  by (simp add: resetForm_def)

lemma students_edit_success:
  "ok status \<Longrightarrow>
   students (fst (handleEditStudent_settle (Response status (Inr r)) st)) =
     map (\<lambda>student. if student_id student = student_id r then r else student) (students st)"
  by (simp add: handleEditStudent_settle_def students_resetForm)

lemma students_delete_success:
  "ok status \<Longrightarrow>
   students (fst (handleDeleteStudent_settle ident (Response status body) st)) =
     filter (\<lambda>student. student_id student \<noteq> ident) (students st)"
  by (simp add: handleDeleteStudent_settle_def)

lemma length_filter_complement:
  "length (filter (\<lambda>x. \<not> P x) xs) + length (filter P xs) = length xs"
  by (induction xs) auto

lemma responseJson_fails: "requestFails resp \<Longrightarrow> \<exists>msg. responseJson resp = Inl msg"
  by (cases resp) auto

lemma responseOk_fails: "requestFails resp \<Longrightarrow> \<exists>msg. responseOk resp = Inl msg"
  by (cases resp) auto

lemma students_complete:
  "students (fst r) = xs \<Longrightarrow> (\<And>st. students (fst (settle st)) = students st) \<Longrightarrow>
   students (fst (complete r settle)) = xs"
  by (cases r) (auto simp: complete_def split: outcome.split prod.split, metis fst_conv)

lemma students_add_submit: "students (fst (handleAddStudent_submit st)) = students st"
  by (simp add: handleAddStudent_submit_def validateForm_eq)

lemma students_edit_submit: "students (fst (handleEditStudent_submit st)) = students st"
  by (simp add: handleEditStudent_submit_def validateForm_eq split: option.split)

lemma students_delete_submit: "students (fst (handleDeleteStudent_submit ident c st)) = students st"
  by (simp add: handleDeleteStudent_submit_def)

lemma add_settle_fails:
  "requestFails resp \<Longrightarrow> students (fst (handleAddStudent_settle resp st)) = students st"
  using responseJson_fails [of resp] by (auto simp: handleAddStudent_settle_def)

lemma edit_settle_fails:
  "requestFails resp \<Longrightarrow> students (fst (handleEditStudent_settle resp st)) = students st"
  using responseJson_fails [of resp] by (auto simp: handleEditStudent_settle_def)

lemma delete_settle_fails:
  "requestFails resp \<Longrightarrow> students (fst (handleDeleteStudent_settle ident resp st)) = students st"
  using responseOk_fails [of resp] by (auto simp: handleDeleteStudent_settle_def)

lemma httpError_500: "httpError 500 = js ''HTTP error! status: 500''"
  by (simp add: httpError_def js_def numberToString.simps)

lemma find_first:
  "\<forall>x \<in> set pre. \<not> P x \<Longrightarrow> P c \<Longrightarrow> find P (pre @ c # post) = Some c"
  by (induction pre) auto

lemma find_none: "\<forall>x \<in> set xs. \<not> P x \<Longrightarrow> find P xs = None"
  by (induction xs) auto

section \<open>The claims\<close>

subsection \<open>C1: the create handler and validation\<close>

text \<open>
  C1 as stated says that the create handler forwards every form data, valid or not, as
  the body of a POST request. The handler calls \<open>validateForm\<close> first and returns when
  it fails: with the empty form of the initial state no request is sent, whatever the
  server would have answered.
\<close>

theorem create_forwards_invalid_counterexample:
  "newErrors (formData initialState) \<noteq> [] \<and>
   snd (handleAddStudent_submit initialState) = Return [] \<and>
   snd (handleAddStudent (Response 201 (Inr student42)) initialState) = []"
  using newErrors_initial
  by (simp add: handleAddStudent_def handleAddStudent_submit_def validateForm_eq complete_def)

text \<open>
  C1, amended: the create handler validates the current form data itself. It stores the
  validation errors; when the form data passes every rule (name and email not blank,
  email matched by the regular expression, course not empty) it sends the form data
  unchanged as the body of a POST request to the Students collection, and otherwise it
  returns without sending a request. In both cases the student list is not touched
  before the answer arrives.
\<close>

theorem create_validates_before_post:
  "handleAddStudent_submit st =
     (st\<lparr>errors := newErrors (formData st)\<rparr>,
      if trim (form_name (formData st)) \<noteq> [] \<and> trim (form_email (formData st)) \<noteq> [] \<and>
         test emailRegex (form_email (formData st)) \<and> form_course (formData st) \<noteq> []
      then Await \<lparr>req_method = POST, req_url = STUDENTS_API_URL, req_body = Some (formData st)\<rparr>
      else Return [])"
  by (simp add: handleAddStudent_submit_def validateForm_eq newErrors_Nil_iff)

theorem create_validates_before_post_witness:
  "handleAddStudent_submit (initialState\<lparr>formData := janeDoe\<rparr>) =
     (initialState\<lparr>formData := janeDoe\<rparr>,
      Await \<lparr>req_method = POST, req_url = STUDENTS_API_URL, req_body = Some janeDoe\<rparr>)"
proof -
  have "newErrors janeDoe = []"
    by (rule newErrors_janeDoe)
  moreover have "errors initialState = []"
    by (simp add: initialState_def)
  ultimately show ?thesis
    using create_validates_before_post [of "initialState\<lparr>formData := janeDoe\<rparr>"]
    by (simp add: newErrors_Nil_iff)
qed

subsection \<open>C2: the email rule\<close>

text \<open>
  C2 as stated describes the accepted shape with the last full stop of the string: some
  character must follow it. The regular expression lets the part after its full stop
  contain further full stops, so it matches \<open>a@b.c.\<close> (local part \<open>a\<close>, domain \<open>b\<close>, rest
  \<open>c.\<close>), a string with nothing after its last full stop, and no email error is set.
\<close>

theorem email_lastDot_counterexample:
  "trim (form_email trailingDot) \<noteq> [] \<and>
   \<not> emailShape_lastDot (form_email trailingDot) \<and>
   map_of (newErrors trailingDot) ''email'' = None"
  using not_lastDot_trailing
  by (simp add: newErrors_trailingDot) (simp add: trailingDot_def string_eval)

text \<open>
  C2, amended: the validation result has the email error "Email is required" exactly when
  the email is empty after trimming; otherwise it has the email error "Please enter a
  valid email address" exactly when the email, as typed, is not of the form
  \<open>l@d.t\<close> with \<open>l\<close>, \<open>d\<close> and \<open>t\<close> non-empty and free of whitespace and \<open>@\<close>, where the
  full stop is some full stop after the \<open>@\<close> (\<open>d\<close> and \<open>t\<close> may contain full stops
  themselves); otherwise it has no email error.
\<close>

theorem email_rule:
  "map_of (newErrors fd) ''email'' =
     (if trim (form_email fd) = [] then Some (js ''Email is required'')
      else if \<not> (\<exists>l d t. form_email fd = l @ at_sign # d @ full_stop # t \<and>
                   l \<noteq> [] \<and> list_all notSpaceNorAt l \<and>
                   d \<noteq> [] \<and> list_all notSpaceNorAt d \<and>
                   t \<noteq> [] \<and> list_all notSpaceNorAt t)
      then Some (js ''Please enter a valid email address'')
      else None)"
  unfolding newErrors_email test_emailRegex_iff ..

theorem email_rule_witness:
  "map_of (newErrors blankForm) ''email'' = Some (js ''Email is required'') \<and>
   (\<exists>l d t. js ''a@b.c.'' = l @ at_sign # d @ full_stop # t \<and>
      l \<noteq> [] \<and> list_all notSpaceNorAt l \<and>
      d \<noteq> [] \<and> list_all notSpaceNorAt d \<and>
      t \<noteq> [] \<and> list_all notSpaceNorAt t)"
proof -
  have blank: "trim (form_email blankForm) = []"
    by (simp add: blankForm_def string_eval)
  have dot: "trim (form_email trailingDot) \<noteq> []" "form_email trailingDot = js ''a@b.c.''"
    by (simp_all add: trailingDot_def string_eval)
  have none: "map_of (newErrors trailingDot) ''email'' = None"
    by (simp add: newErrors_trailingDot)
  from email_rule [of blankForm] blank
  have a: "map_of (newErrors blankForm) ''email'' = Some (js ''Email is required'')"
    by simp
  from email_rule [of trailingDot] none dot
  have b: "\<exists>l d t. js ''a@b.c.'' = l @ at_sign # d @ full_stop # t \<and>
      l \<noteq> [] \<and> list_all notSpaceNorAt l \<and>
      d \<noteq> [] \<and> list_all notSpaceNorAt d \<and>
      t \<noteq> [] \<and> list_all notSpaceNorAt t"
    by (simp split: if_splits) blast
  from a b show ?thesis ..
qed

subsection \<open>C3: create, after a successful POST\<close>

text \<open>
  C3: when the POST succeeds (a 2xx status and a parsed record \<open>r\<close>), the handler turns
  any student list into that list with \<open>r\<close> appended: the length grows by one, the last
  element is \<open>r\<close> and the elements before it are the original list in its order. Run on
  a valid form from start to end, the handler gives the same list.
\<close>

theorem create_success_appends:
  assumes "ok status"
  shows "students (fst (handleAddStudent_settle (Response status (Inr r)) st)) = students st @ [r] \<and>
         length (students (fst (handleAddStudent_settle (Response status (Inr r)) st)))
           = length (students st) + 1 \<and>
         last (students (fst (handleAddStudent_settle (Response status (Inr r)) st))) = r \<and>
         butlast (students (fst (handleAddStudent_settle (Response status (Inr r)) st)))
           = students st \<and>
         (newErrors (formData st) = [] \<longrightarrow>
            students (fst (handleAddStudent (Response status (Inr r)) st)) = students st @ [r])"
  using assms
  by (simp add: handleAddStudent_def handleAddStudent_submit_def handleAddStudent_settle_def
        validateForm_eq complete_def students_resetForm)

theorem create_success_appends_witness:
  "students (fst (handleAddStudent_settle (Response 201 (Inr student42))
      (initialState\<lparr>students := [student7, student9]\<rparr>))) = [student7, student9, student42] \<and>
   students (fst (handleAddStudent (Response 201 (Inr student42))
      (initialState\<lparr>students := [student7, student9], formData := janeDoe\<rparr>)))
     = [student7, student9, student42]"
proof -
  let ?st1 = "initialState\<lparr>students := [student7, student9]\<rparr>"
  let ?st2 = "initialState\<lparr>students := [student7, student9], formData := janeDoe\<rparr>"
  have h: "ok 201"
    by (simp add: ok_def)
  have v: "newErrors (formData ?st2) = []"
    by (simp add: newErrors_janeDoe)
  from create_success_appends [OF h, of student42 ?st1]
  have a: "students (fst (handleAddStudent_settle (Response 201 (Inr student42)) ?st1))
             = students ?st1 @ [student42]"
    by blast
  from create_success_appends [OF h, of student42 ?st2] v
  have b: "students (fst (handleAddStudent (Response 201 (Inr student42)) ?st2))
             = students ?st2 @ [student42]"
    by blast
  show ?thesis
    unfolding a b by simp
qed

subsection \<open>C4: update, after a successful PUT\<close>

text \<open>
  C4: when the PUT succeeds with the record \<open>r\<close> and the student list has an entry with
  the id of \<open>r\<close>, the new list has the same length; at every position it holds \<open>r\<close> where
  the old entry had the id of \<open>r\<close> and the old entry itself everywhere else, so the order
  is kept; and \<open>r\<close> is in the new list. (With several entries of that id, each of them is
  replaced.)
\<close>

theorem update_success_replaces:
  assumes "ok status"
    and "\<exists>s \<in> set (students st). student_id s = student_id r"
  shows "length (students (fst (handleEditStudent_settle (Response status (Inr r)) st)))
           = length (students st) \<and>
         (\<forall>i < length (students st).
            students (fst (handleEditStudent_settle (Response status (Inr r)) st)) ! i =
              (if student_id (students st ! i) = student_id r then r else students st ! i)) \<and>
         r \<in> set (students (fst (handleEditStudent_settle (Response status (Inr r)) st)))"
proof -
  let ?ys = "students (fst (handleEditStudent_settle (Response status (Inr r)) st))"
  let ?f = "\<lambda>student. if student_id student = student_id r then r else student"
  have ys: "?ys = map ?f (students st)"
    using assms(1) by (rule students_edit_success)
  from assms(2) obtain s where s: "s \<in> set (students st)" "student_id s = student_id r"
    by blast
  then have "?f s \<in> set (map ?f (students st))"
    by (intro imageI[of s "set (students st)" ?f, folded set_map])
  with s(2) have "r \<in> set ?ys"
    by (simp add: ys)
  then show ?thesis
    by (simp add: ys)
qed

theorem update_success_replaces_witness:
  "length (students (fst (handleEditStudent_settle (Response 200 (Inr student7'))
      (initialState\<lparr>students := [student9, student7, student42]\<rparr>)))) = 3 \<and>
   students (fst (handleEditStudent_settle (Response 200 (Inr student7'))
      (initialState\<lparr>students := [student9, student7, student42]\<rparr>))) ! 0 = student9 \<and>
   students (fst (handleEditStudent_settle (Response 200 (Inr student7'))
      (initialState\<lparr>students := [student9, student7, student42]\<rparr>))) ! 1 = student7' \<and>
   students (fst (handleEditStudent_settle (Response 200 (Inr student7'))
      (initialState\<lparr>students := [student9, student7, student42]\<rparr>))) ! 2 = student42"
proof -
  let ?st = "initialState\<lparr>students := [student9, student7, student42]\<rparr>"
  let ?ys = "students (fst (handleEditStudent_settle (Response 200 (Inr student7')) ?st))"
  have h1: "ok 200" by (simp add: ok_def)
  have h2: "\<exists>s \<in> set (students ?st). student_id s = student_id student7'"
    by (simp add: example_eval)
  from update_success_replaces [OF h1 h2]
  have len: "length ?ys = 3"
    and nth: "\<forall>i<3. ?ys ! i =
                (if student_id ([student9, student7, student42] ! i) = student_id student7'
                 then student7' else [student9, student7, student42] ! i)"
    by simp_all
  from nth have "?ys ! 0 = student9" "?ys ! 1 = student7'" "?ys ! 2 = student42"
    by (simp_all add: example_eval)
  with len show ?thesis
    by blast
qed

subsection \<open>C5: delete\<close>

text \<open>
  C5: when the confirmation is declined the delete handler does nothing: no request is
  sent and the whole state, so the student list too, is unchanged. When it is confirmed
  and the DELETE succeeds on a list with exactly one entry of the given id, the request
  sent is the DELETE for that id, no entry of the new list has the id, the list is
  shorter by exactly one, and it is the old list without the entries of that id, in the
  old order: removal goes by the id, not by a position.
\<close>

theorem delete_behaviour:
  "handleDeleteStudent ident False resp st = (st, []) \<and>
   (ok status \<and> length (filter (\<lambda>s. student_id s = ident) (students st)) = 1 \<longrightarrow>
      (\<forall>s \<in> set (students (fst (handleDeleteStudent ident True (Response status body) st))).
          student_id s \<noteq> ident) \<and>
      length (students (fst (handleDeleteStudent ident True (Response status body) st))) + 1
        = length (students st) \<and>
      students (fst (handleDeleteStudent ident True (Response status body) st))
        = filter (\<lambda>s. student_id s \<noteq> ident) (students st) \<and>
      snd (handleDeleteStudent ident True (Response status body) st)
        = [Fetch \<lparr>req_method = DELETE, req_url = STUDENTS_API_URL @ js ''/'' @ ident,
                  req_body = None\<rparr>])"
proof -
  have declined: "handleDeleteStudent ident False resp st = (st, [])"
    by (simp add: handleDeleteStudent_def handleDeleteStudent_submit_def complete_def)
  have run: "handleDeleteStudent ident True (Response status body) st =
      (fst (handleDeleteStudent_settle ident (Response status body) st),
       Fetch \<lparr>req_method = DELETE, req_url = STUDENTS_API_URL @ js ''/'' @ ident, req_body = None\<rparr>
         # snd (handleDeleteStudent_settle ident (Response status body) st))"
    by (simp add: handleDeleteStudent_def handleDeleteStudent_submit_def complete_def
          split: prod.split)
  {
    assume ok: "ok status"
      and one: "length (filter (\<lambda>s. student_id s = ident) (students st)) = 1"
    let ?ys = "students (fst (handleDeleteStudent ident True (Response status body) st))"
    have ys: "?ys = filter (\<lambda>s. student_id s \<noteq> ident) (students st)"
      using ok by (simp add: run students_delete_success)
    have "length ?ys + length (filter (\<lambda>s. student_id s = ident) (students st))
            = length (students st)"
      unfolding ys by (rule length_filter_complement)
    with one have len: "length ?ys + 1 = length (students st)"
      by simp
    have fx: "snd (handleDeleteStudent ident True (Response status body) st)
        = [Fetch \<lparr>req_method = DELETE, req_url = STUDENTS_API_URL @ js ''/'' @ ident,
                  req_body = None\<rparr>]"
      using ok by (simp add: run handleDeleteStudent_settle_def)
    have "(\<forall>s \<in> set ?ys. student_id s \<noteq> ident)"
      by (simp add: ys)
    note this len ys fx
  }
  with declined show ?thesis
    by blast
qed

theorem delete_behaviour_witness:
  "handleDeleteStudent (js ''9'') False (NetworkError [])
      (initialState\<lparr>students := [student7, student9]\<rparr>)
     = (initialState\<lparr>students := [student7, student9]\<rparr>, []) \<and>
   students (fst (handleDeleteStudent (js ''9'') True (Response 204 (Inl []))
      (initialState\<lparr>students := [student7, student9]\<rparr>))) = [student7]"
proof -
  let ?st = "initialState\<lparr>students := [student7, student9]\<rparr>"
  have h: "ok 204 \<and> length (filter (\<lambda>s. student_id s = js ''9'') (students ?st)) = 1"
    by (simp add: example_eval)
  have f: "filter (\<lambda>s. student_id s \<noteq> js ''9'') (students ?st) = [student7]"
    by (simp add: example_eval)
  note d = delete_behaviour [of "js ''9''" "NetworkError []" ?st 204 "Inl []"]
  from d have c1: "handleDeleteStudent (js ''9'') False (NetworkError []) ?st = (?st, [])"
    by (rule conjunct1)
  from d h have c3: "students (fst (handleDeleteStudent (js ''9'') True (Response 204 (Inl [])) ?st))
      = filter (\<lambda>s. student_id s \<noteq> js ''9'') (students ?st)"
    by blast
  show ?thesis
    unfolding c1 c3 f by simp
qed

subsection \<open>C6: a failed request leaves the student list alone\<close>

text \<open>
  C6: when the request fails (a network error, or a status that is not 2xx), the student
  list after a whole run of the create, update or delete handler is the list before the
  call; the same holds for the part of each handler that runs when the answer arrives,
  on whatever state it finds.
\<close>

theorem failure_leaves_students:
  assumes "requestFails resp"
  shows "students (fst (handleAddStudent resp st)) = students st \<and>
         students (fst (handleEditStudent resp st)) = students st \<and>
         students (fst (handleDeleteStudent ident confirmed resp st)) = students st \<and>
         students (fst (handleAddStudent_settle resp st)) = students st \<and>
         students (fst (handleEditStudent_settle resp st)) = students st \<and>
         students (fst (handleDeleteStudent_settle ident resp st)) = students st"
  unfolding handleAddStudent_def handleEditStudent_def handleDeleteStudent_def
  using assms
  by (simp add: students_complete students_add_submit students_edit_submit students_delete_submit
        add_settle_fails edit_settle_fails delete_settle_fails)

theorem failure_leaves_students_witness:
  "students (fst (handleAddStudent (Response 500 (Inr student42))
      (initialState\<lparr>students := [student7], formData := janeDoe\<rparr>))) = [student7] \<and>
   students (fst (handleEditStudent (Response 404 (Inr student7'))
      (initialState\<lparr>students := [student7], editingStudent := Some student7,
                     formData := janeDoe\<rparr>))) = [student7] \<and>
   students (fst (handleDeleteStudent (js ''7'') True
      (NetworkError (js ''Failed to fetch'') :: student fetch_result)
      (initialState\<lparr>students := [student7]\<rparr>))) = [student7]"
proof -
  let ?st1 = "initialState\<lparr>students := [student7], formData := janeDoe\<rparr>"
  let ?st2 = "initialState\<lparr>students := [student7], editingStudent := Some student7,
                formData := janeDoe\<rparr>"
  let ?st3 = "initialState\<lparr>students := [student7]\<rparr>"
  let ?net = "NetworkError (js ''Failed to fetch'') :: student fetch_result"
  have h1: "requestFails (Response 500 (Inr student42))"
    and h2: "requestFails (Response 404 (Inr student7'))"
    and h3: "requestFails ?net"
    by (simp_all add: ok_def)
  from failure_leaves_students [OF h1, of ?st1]
  have a: "students (fst (handleAddStudent (Response 500 (Inr student42)) ?st1)) = students ?st1"
    by blast
  from failure_leaves_students [OF h2, of ?st2]
  have b: "students (fst (handleEditStudent (Response 404 (Inr student7')) ?st2)) = students ?st2"
    by blast
  from failure_leaves_students [OF h3, of ?st3 "js ''7''" True]
  have c: "students (fst (handleDeleteStudent (js ''7'') True ?net ?st3)) = students ?st3"
    by blast
  show ?thesis
    unfolding a b c by simp
qed

subsection \<open>C7: required fields\<close>

text \<open>
  C7: a name that is empty after trimming gives the name error "Name is required"; an
  empty course value gives the course error "Course selection is required"; and for the
  form data Jane Doe, jane@example.com, CS101 the error object is empty and
  \<open>validateForm\<close> returns true.
\<close>

theorem required_fields:
  "(trim (form_name fd) = [] \<longrightarrow> map_of (newErrors fd) ''name'' = Some (js ''Name is required'')) \<and>
   (form_course fd = [] \<longrightarrow>
      map_of (newErrors fd) ''course'' = Some (js ''Course selection is required'')) \<and>
   newErrors janeDoe = [] \<and>
   fst (validateForm (st\<lparr>formData := janeDoe\<rparr>))"
proof -
  have "newErrors janeDoe = []"
    by (simp add: newErrors_def janeDoe_def string_eval)
  then show ?thesis
    by (simp add: validateForm_eq) (simp add: newErrors_def Let_def map_of_assign)
qed

theorem required_fields_witness:
  "trim (form_name blankForm) = [] \<and> form_course blankForm = [] \<and>
   map_of (newErrors blankForm) ''name'' = Some (js ''Name is required'') \<and>
   map_of (newErrors blankForm) ''course'' = Some (js ''Course selection is required'')"
proof -
  have h: "trim (form_name blankForm) = []" "form_course blankForm = []"
    by (simp_all add: blankForm_def string_eval)
  with required_fields [of blankForm] show ?thesis
    by blast
qed

subsection \<open>C8: the student fetch hook\<close>

text \<open>
  C8: the hook starts with the loading flag set, and once the request has settled the
  flag is cleared, whatever the outcome. When the request fails, the error field of the
  hook holds the message of the error (the transport's message for a network error,
  "HTTP error! status: " followed by the code for a status that is not 2xx) and the
  student list is still the initial empty list.
\<close>

theorem useStudents_settles:
  "hook_loading useStudents_initial \<and>
   \<not> hook_loading (useStudents_fetchStudents resp hs) \<and>
   (requestFails resp \<longrightarrow>
      hook_error (useStudents_fetchStudents resp useStudents_initial) =
        Some (case resp of NetworkError msg \<Rightarrow> msg | Response status body \<Rightarrow> httpError status) \<and>
      hook_students (useStudents_fetchStudents resp useStudents_initial) = [])"
  by (cases resp)
     (simp_all add: useStudents_initial_def useStudents_fetchStudents_def split: sum.split)

theorem useStudents_settles_witness:
  "hook_error (useStudents_fetchStudents (Response 500 (Inr [student7])) useStudents_initial)
     = Some (js ''HTTP error! status: 500'') \<and>
   hook_students (useStudents_fetchStudents (Response 500 (Inr [student7])) useStudents_initial) = []"
proof -
  have h: "requestFails (Response 500 (Inr [student7]))"
    by (simp add: ok_def)
  with useStudents_settles [of "Response 500 (Inr [student7])"] show ?thesis
    by (simp add: httpError_500)
qed

subsection \<open>C9: the course name of a code\<close>

text \<open>
  C9: the lookup returns the name of the first course of the list whose code is the
  given one (every course before it has another code), and the given code itself when no
  course of the list has that code, in particular for the empty list.
\<close>

theorem getCourseName_lookup:
  "((\<forall>x \<in> set pre. course_code x \<noteq> code) \<and> course_code c = code \<longrightarrow>
      getCourseName (pre @ c # post) code = course_name c) \<and>
   ((\<forall>x \<in> set cs. course_code x \<noteq> code) \<longrightarrow> getCourseName cs code = code) \<and>
   getCourseName [] code = code"
  by (simp add: getCourseName_def find_first find_none)

theorem getCourseName_lookup_witness:
  "getCourseName [introToCS] (js ''CS101'') = js ''Intro to CS'' \<and>
   getCourseName [introToCS] (js ''UNKNOWN'') = js ''UNKNOWN''"
proof -
  have h1: "(\<forall>x \<in> set []. course_code x \<noteq> js ''CS101'') \<and> course_code introToCS = js ''CS101''"
    by (simp add: introToCS_def)
  have h2: "\<forall>x \<in> set [introToCS]. course_code x \<noteq> js ''UNKNOWN''"
    by (simp add: introToCS_def js_def)
  from getCourseName_lookup [of "[]" "js ''CS101''" introToCS "[]" "[introToCS]"] h1
  have a: "getCourseName [introToCS] (js ''CS101'') = course_name introToCS"
    by simp
  from getCourseName_lookup [of "[]" "js ''UNKNOWN''" introToCS "[]" "[introToCS]"] h2
  have b: "getCourseName [introToCS] (js ''UNKNOWN'') = js ''UNKNOWN''"
    by blast
  from a b show ?thesis
    by (simp add: introToCS_def)
qed

subsection \<open>C10: update with an id that is not in the list\<close>

text \<open>
  C10: when the PUT succeeds with a record whose id no entry of the student list has, the
  list after the update is the list before it.
\<close>

theorem update_absent_id_noop:
  assumes "ok status"
    and "\<forall>s \<in> set (students st). student_id s \<noteq> student_id r"
  shows "students (fst (handleEditStudent_settle (Response status (Inr r)) st)) = students st"
proof -
  have "map (\<lambda>student. if student_id student = student_id r then r else student) (students st)
          = map (\<lambda>student. student) (students st)"
    using assms(2) by (intro map_cong) auto
  with assms(1) show ?thesis
    by (simp add: students_edit_success)
qed

theorem update_absent_id_noop_witness:
  "students (fst (handleEditStudent_settle (Response 200 (Inr student7))
      (initialState\<lparr>students := [student9, student42]\<rparr>))) = [student9, student42]"
proof -
  have h1: "ok 200" by (simp add: ok_def)
  have h2: "\<forall>s \<in> set (students (initialState\<lparr>students := [student9, student42]\<rparr>)).
              student_id s \<noteq> student_id student7"
    by (simp add: example_eval)
  from update_absent_id_noop [OF h1 h2] show ?thesis
    by simp
qed

end
